theory Spec2Isabelle
  imports Main
begin

section \<open>JavaScript values\<close>

text \<open>
  The middleware of \<^verbatim>\<open>src/index.ts\<close> probes untyped data at run time (\<^verbatim>\<open>typeof\<close>,
  \<^verbatim>\<open>in\<close>, truthiness, \<^verbatim>\<open>==\<close>), so the route configuration, the property path, the
  handlers and the request facets are all values of one type of JavaScript values.

  An object is the association list of its own properties, read with \<open>map_of\<close>, and its
  prototype is \<^verbatim>\<open>Object.prototype\<close>; the prototype of an array is \<^verbatim>\<open>Array.prototype\<close>. The
  two prototype objects are values of their own, and so are their members, the built-in
  functions, which are known by name. A function of the program or of the configuration
  is known by its name and by what a call without arguments does: it returns a value, or
  it raises (\<open>None\<close>). Numbers are integers. Strings are lists of bytes: the three
  characters the path syntax interprets (the dot and the two square brackets) are ASCII.

  Outside the model: objects with another prototype, getters and setters, symbols (and so
  \<^verbatim>\<open>Symbol.toPrimitive\<close>), arrays with holes or with named properties of their own, and
  functions with properties of their own.
\<close>

datatype jsval =
    JUndef
  | JNull
  | JBool bool
  | JNum int
  | JStr string
  | JArr "jsval list"
  | JObj "(string \<times> jsval) list"
  | JFun string "jsval option"
  | JNative string
  | JObjectPrototype
  | JArrayPrototype

text \<open>\<^verbatim>\<open>typeof v\<close>.\<close>

fun typeof :: "jsval \<Rightarrow> string" where
  "typeof JUndef = ''undefined''"
| "typeof JNull = ''object''"
| "typeof (JBool b) = ''boolean''"
| "typeof (JNum n) = ''number''"
| "typeof (JStr s) = ''string''"
| "typeof (JArr xs) = ''object''"
| "typeof (JObj kvs) = ''object''"
| "typeof (JFun f r) = ''function''"
| "typeof (JNative f) = ''function''"
| "typeof JObjectPrototype = ''object''"
| "typeof JArrayPrototype = ''object''"

text \<open>The value of \<open>v\<close> as a condition (\<^verbatim>\<open>if (v)\<close>, \<^verbatim>\<open>v && ...\<close>, \<^verbatim>\<open>!v\<close>).\<close>

fun truthy :: "jsval \<Rightarrow> bool" where
  "truthy JUndef = False"
| "truthy JNull = False"
| "truthy (JBool b) = b"
| "truthy (JNum n) = (n \<noteq> 0)"
| "truthy (JStr s) = (s \<noteq> [])"
| "truthy v = True"

text \<open>\<^verbatim>\<open>Array.isArray(v)\<close>; \<^verbatim>\<open>Array.prototype\<close> is an array of length 0.\<close>

fun isArray :: "jsval \<Rightarrow> bool" where
  "isArray (JArr xs) = True"
| "isArray JArrayPrototype = True"
| "isArray v = False"

subsection \<open>Decimal rendering and array indices\<close>

definition digit_char :: "nat \<Rightarrow> char" where
  "digit_char d = ''0123456789'' ! d"

fun show_nat :: "nat \<Rightarrow> string" where
  "show_nat n = (if n < 10 then [digit_char n] else show_nat (n div 10) @ [digit_char (n mod 10)])"

declare show_nat.simps [simp del]

definition show_int :: "int \<Rightarrow> string" where
  "show_int i = (if i < 0 then CHR ''-'' # show_nat (nat (- i)) else show_nat (nat i))"

text \<open>
  A property key \<open>k\<close> names element \<open>i\<close> of an array of length \<open>n\<close> when \<open>k\<close> is the
  canonical decimal rendering of \<open>i\<close> and \<open>i < n\<close>.
\<close>

definition array_index :: "string \<Rightarrow> nat \<Rightarrow> nat option" where
  "array_index k n = find (\<lambda>i. show_nat i = k) [0..<n]"

subsection \<open>The built-in prototypes\<close>

text \<open>
  The string keys of \<^verbatim>\<open>Object.prototype\<close>, of \<^verbatim>\<open>Array.prototype\<close> (ECMAScript 2023, without
  \<^verbatim>\<open>length\<close>) and of a function declared with \<^verbatim>\<open>function\<close> (its own \<^verbatim>\<open>length\<close>,
  \<^verbatim>\<open>name\<close> and \<^verbatim>\<open>prototype\<close> and those of \<^verbatim>\<open>Function.prototype\<close>). Of the built-in
  functions only the constructors \<^verbatim>\<open>Object\<close> and \<^verbatim>\<open>Array\<close> have a \<^verbatim>\<open>prototype\<close>.
\<close>

definition object_prototype_keys :: "string list" where
  "object_prototype_keys =
     [''constructor'', ''__defineGetter__'', ''__defineSetter__'', ''hasOwnProperty'',
      ''__lookupGetter__'', ''__lookupSetter__'', ''isPrototypeOf'', ''propertyIsEnumerable'',
      ''toString'', ''valueOf'', ''__proto__'', ''toLocaleString'']"

definition array_prototype_keys :: "string list" where
  "array_prototype_keys =
     [''constructor'', ''at'', ''concat'', ''copyWithin'', ''fill'', ''find'', ''findIndex'',
      ''findLast'', ''findLastIndex'', ''lastIndexOf'', ''pop'', ''push'', ''reverse'', ''shift'',
      ''unshift'', ''slice'', ''sort'', ''splice'', ''includes'', ''indexOf'', ''join'', ''keys'',
      ''entries'', ''values'', ''forEach'', ''filter'', ''flat'', ''flatMap'', ''map'', ''every'',
      ''some'', ''reduce'', ''reduceRight'', ''toLocaleString'', ''toString'', ''toReversed'',
      ''toSorted'', ''toSpliced'', ''with'']"

definition function_keys :: "string list" where
  "function_keys =
     [''length'', ''name'', ''prototype'', ''arguments'', ''caller'', ''constructor'', ''apply'',
      ''bind'', ''call'', ''toString'']"

text \<open>
  \<open>object_member proto k\<close> is what the key \<open>k\<close> of \<^verbatim>\<open>Object.prototype\<close> reads as on an object
  whose prototype is \<open>proto\<close>: the accessor \<^verbatim>\<open>__proto__\<close> gives the prototype, every other
  key a built-in function. \<open>array_member\<close> is the same for the keys of
  \<^verbatim>\<open>Array.prototype\<close>, behind which those of \<^verbatim>\<open>Object.prototype\<close> stand.
\<close>

definition object_member :: "jsval \<Rightarrow> string \<Rightarrow> jsval" where
  "object_member proto k =
     (if k = ''__proto__'' then proto
      else if k = ''constructor'' then JNative ''Object''
      else if k \<in> set object_prototype_keys then JNative (''Object.prototype.'' @ k)
      else JUndef)"

definition array_member :: "jsval \<Rightarrow> string \<Rightarrow> jsval" where
  "array_member proto k =
     (if k = ''constructor'' then JNative ''Array''
      else if k \<in> set array_prototype_keys then JNative (''Array.prototype.'' @ k)
      else object_member proto k)"

subsection \<open>Property membership and property read\<close>

text \<open>
  \<^verbatim>\<open>k in v\<close> for a value \<open>v\<close> that is an object, an array or a function: \<open>k\<close> is a key of
  \<open>v\<close> itself or of an object on its prototype chain. (On any other value the operator
  raises a TypeError; see \<open>in_op\<close>.)
\<close>

fun has_key :: "string \<Rightarrow> jsval \<Rightarrow> bool" where
  "has_key k (JObj kvs) = (k \<in> set (map fst kvs) \<or> k \<in> set object_prototype_keys)"
| "has_key k (JArr xs) =
     (k = ''length'' \<or> array_index k (length xs) \<noteq> None
      \<or> k \<in> set array_prototype_keys \<or> k \<in> set object_prototype_keys)"
| "has_key k JObjectPrototype = (k \<in> set object_prototype_keys)"
| "has_key k JArrayPrototype =
     (k = ''length'' \<or> k \<in> set array_prototype_keys \<or> k \<in> set object_prototype_keys)"
| "has_key k (JFun f r) = (k \<in> set function_keys \<or> k \<in> set object_prototype_keys)"
| "has_key k (JNative f) =
     ((k \<in> set function_keys \<and> (k = ''prototype'' \<longrightarrow> f = ''Object'' \<or> f = ''Array''))
      \<or> k \<in> set object_prototype_keys)"
| "has_key k v = False"

text \<open>
  \<^verbatim>\<open>v[k]\<close> for a value \<open>v\<close> that is neither \<^verbatim>\<open>undefined\<close> nor \<^verbatim>\<open>null\<close>: the property of
  \<open>v\<close> itself, or else the inherited one. On a function and on a primitive value the
  program reads only the key \<^verbatim>\<open>parameters\<close> (of \<^verbatim>\<open>req.meta\<close>), which is no member of
  theirs.
\<close>

fun prop_get :: "jsval \<Rightarrow> string \<Rightarrow> jsval" where
  "prop_get (JObj kvs) k =
     (case map_of kvs k of Some x \<Rightarrow> x | None \<Rightarrow> object_member JObjectPrototype k)"
| "prop_get (JArr xs) k =
     (if k = ''length'' then JNum (int (length xs))
      else case array_index k (length xs) of
             Some i \<Rightarrow> xs ! i
           | None \<Rightarrow> array_member JArrayPrototype k)"
| "prop_get JObjectPrototype k = object_member JNull k"
| "prop_get JArrayPrototype k =
     (if k = ''length'' then JNum 0 else array_member JObjectPrototype k)"
| "prop_get v k = JUndef"

text \<open>
  What stops a computation: a TypeError of the language, an exception raised by a function
  of the configuration, or the call of a built-in function as a conversion method, which
  the model does not execute.
\<close>

datatype js_error = TypeError | Thrown | NativeCall string

text \<open>The operator \<^verbatim>\<open>k in v\<close> itself: it raises on a primitive right operand.\<close>

fun in_op :: "string \<Rightarrow> jsval \<Rightarrow> js_error + bool" where
  "in_op k JUndef = Inl TypeError"
| "in_op k JNull = Inl TypeError"
| "in_op k (JBool b) = Inl TypeError"
| "in_op k (JNum n) = Inl TypeError"
| "in_op k (JStr s) = Inl TypeError"
| "in_op k v = Inr (has_key k v)"

text \<open>\<^verbatim>\<open>v.k\<close> raises on \<^verbatim>\<open>undefined\<close> and \<^verbatim>\<open>null\<close>; \<^verbatim>\<open>v?.k\<close> yields \<^verbatim>\<open>undefined\<close> there.\<close>

fun nullish :: "jsval \<Rightarrow> bool" where
  "nullish JUndef = True"
| "nullish JNull = True"
| "nullish v = False"

definition member :: "jsval \<Rightarrow> string \<Rightarrow> js_error + jsval" where
  "member v k = (if nullish v then Inl TypeError else Inr (prop_get v k))"

definition opt_member :: "jsval \<Rightarrow> string \<Rightarrow> jsval" where
  "opt_member v k = (if nullish v then JUndef else prop_get v k)"

subsection \<open>Conversion to a primitive value and to a string\<close>

fun primitive :: "jsval \<Rightarrow> bool" where
  "primitive JUndef = True"
| "primitive JNull = True"
| "primitive (JBool b) = True"
| "primitive (JNum n) = True"
| "primitive (JStr s) = True"
| "primitive v = False"

text \<open>
  One step of \<^verbatim>\<open>OrdinaryToPrimitive\<close> on an object with the own properties \<open>kvs\<close>: the
  method \<open>m\<close> (\<^verbatim>\<open>valueOf\<close> or \<^verbatim>\<open>toString\<close>) is read, and called if it is a function. The
  step yields \<open>Some p\<close> when the call returns the primitive value \<open>p\<close>, and \<open>None\<close> when
  the method is no function or returns an object. Without a property of its own the
  object inherits \<^verbatim>\<open>Object.prototype.valueOf\<close>, which returns the object, and
  \<^verbatim>\<open>Object.prototype.toString\<close>, which returns \<^verbatim>\<open>'[object Object]'\<close>; the two do the
  same when they are properties of the object itself. Any other built-in function in their
  place stops the computation.
\<close>

definition method_result :: "(string \<times> jsval) list \<Rightarrow> string \<Rightarrow> js_error + jsval option" where
  "method_result kvs m =
     (case map_of kvs m of
        None \<Rightarrow> Inr (if m = ''toString'' then Some (JStr ''[object Object]'') else None)
      | Some (JFun f None) \<Rightarrow> Inl Thrown
      | Some (JFun f (Some r)) \<Rightarrow> Inr (if primitive r then Some r else None)
      | Some (JNative f) \<Rightarrow>
          (if f = ''Object.prototype.toString'' then Inr (Some (JStr ''[object Object]''))
           else if f = ''Object.prototype.valueOf'' then Inr None
           else Inl (NativeCall f))
      | Some x \<Rightarrow> Inr None)"

text \<open>
  \<^verbatim>\<open>ToPrimitive\<close> on such an object: \<^verbatim>\<open>toString\<close> then \<^verbatim>\<open>valueOf\<close> when a string is
  asked for, \<^verbatim>\<open>valueOf\<close> then \<^verbatim>\<open>toString\<close> otherwise; a TypeError when neither gives a
  primitive value.
\<close>

definition to_primitive :: "bool \<Rightarrow> (string \<times> jsval) list \<Rightarrow> js_error + jsval" where
  "to_primitive string_first kvs =
     (case method_result kvs (if string_first then ''toString'' else ''valueOf'') of
        Inl e \<Rightarrow> Inl e
      | Inr (Some p) \<Rightarrow> Inr p
      | Inr None \<Rightarrow>
          (case method_result kvs (if string_first then ''valueOf'' else ''toString'') of
             Inl e \<Rightarrow> Inl e
           | Inr (Some p) \<Rightarrow> Inr p
           | Inr None \<Rightarrow> Inl TypeError))"

text \<open>
  \<^verbatim>\<open>ToString\<close> of a primitive value. \<open>None\<close> is a text that the model does not spell out:
  here that of a number of 22 digits or more, which is written with an exponent, and in
  \<open>to_string\<close> the source text of a function. Such a text, and any text it is a part of,
  differs from \<^verbatim>\<open>'object'\<close>.
\<close>

fun prim_text :: "jsval \<Rightarrow> string option" where
  "prim_text JUndef = Some ''undefined''"
| "prim_text JNull = Some ''null''"
| "prim_text (JBool b) = Some (if b then ''true'' else ''false'')"
| "prim_text (JNum n) = (if \<bar>n\<bar> < 10 ^ 21 then Some (show_int n) else None)"
| "prim_text (JStr s) = Some s"
| "prim_text v = None"

text \<open>
  \<^verbatim>\<open>Array.prototype.join\<close> with the separator \<^verbatim>\<open>','\<close>, over the elements' texts from left
  to right: the first conversion that raises ends the join.
\<close>

fun join_comma :: "(js_error + string option) list \<Rightarrow> js_error + string option" where
  "join_comma [] = Inr (Some [])"
| "join_comma [x] = x"
| "join_comma (x # y # ys) =
     (case x of
        Inl e \<Rightarrow> Inl e
      | Inr a \<Rightarrow>
          (case join_comma (y # ys) of
             Inl e \<Rightarrow> Inl e
           | Inr b \<Rightarrow>
               Inr (case (a, b) of
                      (Some s, Some t) \<Rightarrow> Some (s @ '','' @ t)
                    | _ \<Rightarrow> None)))"

text \<open>
  \<^verbatim>\<open>ToString\<close>. An array is joined: an element that is \<^verbatim>\<open>undefined\<close> or \<^verbatim>\<open>null\<close> gives
  the empty text, any other element its own text. An object is converted to a primitive
  value, \<^verbatim>\<open>toString\<close> first, and that value to its text.
\<close>

fun to_string :: "jsval \<Rightarrow> js_error + string option" where
  "to_string (JArr xs) =
     join_comma (map (\<lambda>x. if nullish x then Inr (Some []) else to_string x) xs)"
| "to_string (JObj kvs) =
     (case to_primitive True kvs of Inl e \<Rightarrow> Inl e | Inr p \<Rightarrow> Inr (prim_text p))"
| "to_string (JFun f r) = Inr None"
| "to_string (JNative f) = Inr None"
| "to_string JObjectPrototype = Inr (Some ''[object Object]'')"
| "to_string JArrayPrototype = Inr (Some [])"
| "to_string v = Inr (prim_text v)"

subsection \<open>Loose equality with the string \<^verbatim>\<open>'object'\<close>\<close>

text \<open>
  \<^verbatim>\<open>v == 'object'\<close>. A string is compared as it is. An object is first converted to a
  primitive value, \<^verbatim>\<open>valueOf\<close> first; for an array and for a function that value is its
  text. A primitive value that is no string is not equal: a number or a boolean is
  compared with the number the string \<^verbatim>\<open>'object'\<close> converts to, which is NaN, and
  \<^verbatim>\<open>undefined\<close> and \<^verbatim>\<open>null\<close> equal only each other.
\<close>

fun loose_eq_object :: "jsval \<Rightarrow> js_error + bool" where
  "loose_eq_object (JStr s) = Inr (s = ''object'')"
| "loose_eq_object (JArr xs) =
     (case to_string (JArr xs) of Inl e \<Rightarrow> Inl e | Inr t \<Rightarrow> Inr (t = Some ''object''))"
| "loose_eq_object (JObj kvs) =
     (case to_primitive False kvs of Inl e \<Rightarrow> Inl e | Inr p \<Rightarrow> Inr (p = JStr ''object''))"
| "loose_eq_object v = Inr False"

section \<open>The schema locator\<close>

text \<open>\<^verbatim>\<open>PARAMETERS_PROPS\<close>, line 9.\<close>

definition PARAMETERS_PROPS :: "string list" where
  "PARAMETERS_PROPS = [''params'', ''body'', ''query'', ''headers'', ''cookies'', ''files'']"

subsection \<open>The property path\<close>

text \<open>
  \<^verbatim>\<open>property.replace(/\[([^[\]]*)\]/g, '.$1.')\<close>. After an opening bracket,
  \<open>bracket_body\<close> reads the longest run of characters that are not brackets; the pattern
  matches when the run is followed by a closing bracket, and then yields the run and the
  rest of the string. The scan goes from left to right; a match is replaced by the run
  between two dots and the scan resumes after it; where the pattern does not match, the
  character is kept.
\<close>

fun bracket_body :: "string \<Rightarrow> (string \<times> string) option" where
  "bracket_body [] = None"
| "bracket_body (c # cs) =
     (if c = CHR '']'' then Some ([], cs)
      else if c = CHR ''['' then None
      else map_option (\<lambda>(k, r). (c # k, r)) (bracket_body cs))"

function replace_brackets :: "string \<Rightarrow> string" where
  "replace_brackets [] = []"
| "replace_brackets (c # cs) =
     (if c = CHR ''['' then
        (case bracket_body cs of
           Some (k, r) \<Rightarrow> CHR ''.'' # k @ CHR ''.'' # replace_brackets r
         | None \<Rightarrow> c # replace_brackets cs)
      else c # replace_brackets cs)"
  by pat_completeness auto
termination
proof -
  have shorter: "length r < length cs" if "bracket_body cs = Some (k, r)" for cs k r
    using that by (induction cs arbitrary: k r) (auto split: if_splits)
  show ?thesis
    by (relation "measure length") (auto dest: shorter)
qed

text \<open>\<^verbatim>\<open>.split('.')\<close>: the pieces between the dots, empty pieces included.\<close>

fun split_dot :: "string \<Rightarrow> string list" where
  "split_dot [] = [[]]"
| "split_dot (c # cs) =
     (if c = CHR ''.'' then [] # split_dot cs
      else (case split_dot cs of
              s # ss \<Rightarrow> (c # s) # ss
            | [] \<Rightarrow> [[c]]))"

text \<open>Lines 29 to 31: replace, split, and drop the empty pieces.\<close>

definition path_segments :: "string \<Rightarrow> string list" where
  "path_segments property = filter (\<lambda>t. t \<noteq> []) (split_dot (replace_brackets property))"

text \<open>The callback of \<^verbatim>\<open>reduce\<close>, lines 32 to 38 (\<open>cur\<close> is the source's \<^verbatim>\<open>curr\<close>).\<close>

definition walk_step :: "jsval \<Rightarrow> string \<Rightarrow> jsval" where
  "walk_step prev cur =
     (if truthy prev \<and> typeof prev = ''object'' \<and> has_key cur prev
      then prop_get prev cur
      else JUndef)"

subsection \<open>\<^verbatim>\<open>retrieveParametersValue\<close>, lines 20 to 51\<close>

text \<open>An absent argument is \<^verbatim>\<open>undefined\<close>; the result \<^verbatim>\<open>null\<close> is \<open>JNull\<close>.\<close>

definition retrieveParametersValue :: "jsval \<Rightarrow> jsval \<Rightarrow> jsval" where
  "retrieveParametersValue parameters property =
     (if truthy parameters \<and> typeof parameters = ''object'' then
        (case property of
           JStr p \<Rightarrow>
             (if truthy property then
                (let subParameters = foldl walk_step parameters (path_segments p)
                 in if truthy subParameters \<and> typeof subParameters = ''object''
                       \<and> \<not> isArray subParameters
                    then subParameters
                    else JNull)
              else parameters)
         | _ \<Rightarrow> parameters)
      else JNull)"

subsection \<open>\<^verbatim>\<open>retrieveSchema\<close>, lines 53 to 70\<close>

text \<open>
  The test of line 56 goes from left to right, so the comparison \<^verbatim>\<open>v.type == 'object'\<close> is
  made only when \<^verbatim>\<open>type\<close> is a key of \<^verbatim>\<open>v\<close>, and an exception it raises leaves the
  function. \<open>wrap\<close> is the branch of lines 57 to 66: its loop fills \<^verbatim>\<open>props\<close>, which the
  function never reads again, and the object it returns has the whole of \<^verbatim>\<open>v\<close> as its
  \<^verbatim>\<open>properties\<close>.
\<close>

definition retrieveSchema :: "jsval \<Rightarrow> jsval \<Rightarrow> js_error + jsval" where
  "retrieveSchema parameters property =
     (let v = retrieveParametersValue parameters property;
          wrap = (let props = map (\<lambda>p. (p, prop_get v p))
                                (filter (\<lambda>p. truthy (prop_get v p) \<and> typeof (prop_get v p) = ''object'')
                                   PARAMETERS_PROPS)
                  in JObj [(''type'', JStr ''object''), (''properties'', v)])
      in if truthy v then
           (if has_key ''type'' v then
              (case loose_eq_object (prop_get v ''type'') of
                 Inl e \<Rightarrow> Inl e
               | Inr eq \<Rightarrow> if eq \<and> has_key ''properties'' v then Inr v else Inr wrap)
            else Inr wrap)
         else Inr v)"

section \<open>The request extractor\<close>

text \<open>
  The fields of the request that the middleware reads. \<^verbatim>\<open>req.meta\<close> is set by the
  routing layer and may be missing.
\<close>

record request =
  params :: jsval
  body :: jsval
  query :: jsval
  headers :: jsval
  cookies :: jsval
  files :: jsval
  meta :: jsval
  originalUrl :: string

text \<open>
  \<^verbatim>\<open>buildValueToValidate\<close>, lines 72 to 96. The object \<^verbatim>\<open>r\<close> is the association list of
  its properties in the order of assignment; a facet the request does not have is stored
  as \<^verbatim>\<open>undefined\<close> under its key. The operator \<^verbatim>\<open>in\<close> raises when \<^verbatim>\<open>schema\<close> is not an
  object; \<^verbatim>\<open>properties\<close> is an object where it is tested.
\<close>

definition buildValueToValidate :: "jsval \<Rightarrow> request \<Rightarrow> js_error + (string \<times> jsval) list" where
  "buildValueToValidate schema req =
     (case in_op ''properties'' schema of
        Inl e \<Rightarrow> Inl e
      | Inr present \<Rightarrow>
          (if present \<and> truthy (prop_get schema ''properties'')
              \<and> typeof (prop_get schema ''properties'') = ''object''
           then
             (let properties = prop_get schema ''properties'';
                  r0 = [];
                  r1 = (if has_key ''params'' properties then r0 @ [(''params'', params req)] else r0);
                  r2 = (if has_key ''body'' properties then r1 @ [(''body'', body req)] else r1);
                  r3 = (if has_key ''query'' properties then r2 @ [(''query'', query req)] else r2);
                  r4 = (if has_key ''headers'' properties then r3 @ [(''headers'', headers req)] else r3);
                  r5 = (if has_key ''cookies'' properties then r4 @ [(''cookies'', cookies req)] else r4);
                  r6 = (if has_key ''files'' properties then r5 @ [(''files'', files req)] else r5)
              in Inr r6)
           else Inr []))"

section \<open>The middleware\<close>

text \<open>
  The validation engine (Ajv) is a parameter of the model: \<open>engine opts schema values\<close> is
  what \<^verbatim>\<open>ajv.compile(schema)(values)\<close> does for an instance \<^verbatim>\<open>ajv\<close> built from the
  options \<open>opts\<close>: it raises, or it accepts, or it rejects and leaves
  \<^verbatim>\<open>validate.errors\<close>. The instance of the factory is built once, on line 112, before any
  request; the handler is modelled for a factory that was built.
\<close>

datatype verdict = Raises | Valid | Invalid jsval

text \<open>
  What the handler does to the outside, in order: the calls of the logger (by level; the
  message is left out), of the engine, of \<^verbatim>\<open>next\<close>, of an error handler with its four arguments, and the
  response \<^verbatim>\<open>res.status(n).json(b)\<close>. \<open>ARes\<close> and \<open>ANext\<close> are the response object and the
  continuation the handler itself was called with.
\<close>

datatype log_level = Silly | Info | Warn | Error

datatype arg = AVal jsval | AReq request | ARes | ANext

datatype event =
    Log log_level
  | NewAjv jsval
  | Validate jsval jsval jsval
  | CallNext
  | CallHandler jsval "arg list"
  | Respond nat jsval
  | Raise js_error
  | EngineRaise

text \<open>
  \<^verbatim>\<open>validatorJsonRequestHandler\<close>, lines 113 to 150, for the factory arguments \<open>options\<close>,
  \<open>onerror\<close> and \<open>schemaProperty\<close>. \<^verbatim>\<open>schema.valueOf()\<close> is the schema itself.
\<close>

definition on_invalid :: "jsval \<Rightarrow> jsval \<Rightarrow> request \<Rightarrow> jsval \<Rightarrow> event list" where
  "on_invalid onerror parameters req errors =
     (let err = JObj [(''errors'', errors)]
      in Log Error #
         (if typeof (opt_member parameters ''onerror'') = ''function'' then
            [Log Error,
             CallHandler (prop_get parameters ''onerror'') [AVal err, AReq req, ARes, ANext]]
          else if truthy onerror then
            (if typeof onerror = ''function'' then
               [Log Error,
                CallHandler onerror [AVal err, AReq req, ARes, ANext]]
             else
               [Log Warn,
                Respond 400 err])
          else [Respond 400 err]))"

definition validatorJsonRequestHandler ::
  "(jsval \<Rightarrow> jsval \<Rightarrow> jsval \<Rightarrow> verdict) \<Rightarrow> jsval \<Rightarrow> jsval \<Rightarrow> jsval \<Rightarrow> request \<Rightarrow> event list" where
  "validatorJsonRequestHandler engine options onerror schemaProperty req =
     (case retrieveSchema (opt_member (meta req) ''parameters'') schemaProperty of
        Inl e \<Rightarrow> [Raise e]
      | Inr schema \<Rightarrow>
          (if \<not> truthy schema then [Log Silly, CallNext]
           else
             (case buildValueToValidate schema req of
                Inl e \<Rightarrow> [Raise e]
              | Inr r \<Rightarrow>
                  (let values = JObj r
                   in Log Info #
                      (case member (meta req) ''parameters'' of
                         Inl e \<Rightarrow> [Raise e]
                       | Inr parameters \<Rightarrow>
                           (let routeOptions = opt_member parameters ''validatorJsonOptions'';
                                fresh = truthy routeOptions;
                                active = (if fresh then routeOptions else options)
                            in (if fresh then [NewAjv routeOptions] else []) @
                               Validate active schema values #
                               (case engine active schema values of
                                  Raises \<Rightarrow> [EngineRaise]
                                | Valid \<Rightarrow> [Log Info, CallNext]
                                | Invalid errors \<Rightarrow> on_invalid onerror parameters req errors)))))))"

section \<open>Notions of the specification\<close>

text \<open>
  A non-array object: what lines 40 to 42 test (\<^verbatim>\<open>null\<close> has the type \<^verbatim>\<open>'object'\<close> and is
  excluded by its falsity).
\<close>

definition nonarray_object :: "jsval \<Rightarrow> bool" where
  "nonarray_object v = (truthy v \<and> typeof v = ''object'' \<and> \<not> isArray v)"

text \<open>A property path is given when it is a string that is not empty.\<close>

fun path_given :: "jsval \<Rightarrow> bool" where
  "path_given (JStr p) = (p \<noteq> [])"
| "path_given v = False"

text \<open>
  The located value of the specification: the configuration itself when no path is given,
  and otherwise the value on which the walk along the segments ends.
\<close>

fun located_value :: "jsval \<Rightarrow> jsval \<Rightarrow> jsval" where
  "located_value config (JStr p) =
     (if p = [] then config else foldl walk_step config (path_segments p))"
| "located_value config v = config"

text \<open>
  Every segment resolves: at each point of the walk the current value is an object and has
  the segment as a key, of its own or inherited, as the operator \<^verbatim>\<open>in\<close> tests it.
\<close>

fun resolves :: "jsval \<Rightarrow> string list \<Rightarrow> bool" where
  "resolves v [] = True"
| "resolves v (k # ks) =
     (truthy v \<and> typeof v = ''object'' \<and> has_key k v \<and> resolves (prop_get v k) ks)"

text \<open>
  The keys of a value as a key-value mapping are its own: the keys an object was given,
  the indices of an array and its length. \<open>resolves_own\<close> is resolution by these keys
  alone.
\<close>

fun own_key :: "string \<Rightarrow> jsval \<Rightarrow> bool" where
  "own_key k (JObj kvs) = (k \<in> set (map fst kvs))"
| "own_key k (JArr xs) = (k = ''length'' \<or> array_index k (length xs) \<noteq> None)"
| "own_key k v = False"

fun resolves_own :: "jsval \<Rightarrow> string list \<Rightarrow> bool" where
  "resolves_own v [] = True"
| "resolves_own v (k # ks) =
     (truthy v \<and> typeof v = ''object'' \<and> own_key k v \<and> resolves_own (prop_get v k) ks)"

text \<open>The canonical shape around a bare facet map.\<close>

definition wrapped :: "jsval \<Rightarrow> jsval" where
  "wrapped v = JObj [(''type'', JStr ''object''), (''properties'', v)]"

text \<open>The facet of the request that a facet name stands for.\<close>

definition request_facet :: "request \<Rightarrow> string \<Rightarrow> jsval" where
  "request_facet req k =
     (if k = ''params'' then params req
      else if k = ''body'' then body req
      else if k = ''query'' then query req
      else if k = ''headers'' then headers req
      else if k = ''cookies'' then cookies req
      else if k = ''files'' then files req
      else JUndef)"

text \<open>
  The route configuration of a request (\<^verbatim>\<open>req.meta?.parameters\<close>), the options of the
  engine instance that validates it (line 121), and the value handed to the engine.
\<close>

definition route_parameters :: "request \<Rightarrow> jsval" where
  "route_parameters req = opt_member (meta req) ''parameters''"



text \<open>
  The events that end the handling of a request: the continuation, an error handler, a
  response, or an exception.
\<close>

fun terminal :: "event \<Rightarrow> bool" where
  "terminal CallNext = True"
| "terminal (CallHandler f as) = True"
| "terminal (Respond n b) = True"
| "terminal (Raise e) = True"
| "terminal EngineRaise = True"
| "terminal e = False"

text \<open>The events in which the engine takes part.\<close>

fun engine_event :: "event \<Rightarrow> bool" where
  "engine_event (NewAjv opts) = True"
| "engine_event (Validate opts schema values) = True"
| "engine_event EngineRaise = True"
| "engine_event e = False"

text \<open>Configurations and a request used as concrete inputs below.\<close>

definition example_nested :: jsval where
  "example_nested =
     JObj [(''a'', JObj [(''b'', JObj [(''c'', JObj [(''body'', JObj [(''type'', JStr ''object'')])])])])]"

definition example_loose :: jsval where
  "example_loose = JObj [(''type'', JArr [JStr ''object'']), (''properties'', JObj [])]"

definition example_converted :: jsval where
  "example_converted =
     JObj [(''type'', JObj [(''toString'', JFun ''toString'' (Some (JStr ''object'')))]),
           (''properties'', JObj [])]"

definition example_unconvertible :: jsval where
  "example_unconvertible =
     JObj [(''type'', JObj [(''toString'', JNull), (''valueOf'', JNull)]),
           (''properties'', JObj [])]"

definition example_request :: "jsval \<Rightarrow> request" where
  "example_request parameters =
     \<lparr> params = JObj [(''id'', JStr ''7'')],
       body = JObj [],
       query = JObj [(''q'', JStr ''x'')],
       headers = JObj [(''host'', JStr ''h'')],
       cookies = JUndef,
       files = JUndef,
       meta = JObj [(''parameters'', parameters)],
       originalUrl = ''/app'' \<rparr>"

text \<open>Two engines: one that raises on every schema, one that accepts every value.\<close>

definition raising_engine :: "jsval \<Rightarrow> jsval \<Rightarrow> jsval \<Rightarrow> verdict" where
  "raising_engine opts schema values = Raises"

definition accepting_engine :: "jsval \<Rightarrow> jsval \<Rightarrow> jsval \<Rightarrow> verdict" where
  "accepting_engine opts schema values = Valid"



section \<open>Properties of the locator\<close>

subsection \<open>The walk and the results of the lookup\<close>

text \<open>
  Once a step of the walk has failed its value is \<^verbatim>\<open>undefined\<close>, and every later step fails
  on it.
\<close>

lemma walk_from_undef: "foldl walk_step JUndef ks = JUndef"
  by (induction ks) (simp_all add: walk_step_def)

lemma walk_unresolved: "\<not> resolves v ks \<Longrightarrow> foldl walk_step v ks = JUndef"
proof (induction ks arbitrary: v)
  case Nil
  then show ?case by simp
next
  case (Cons k ks)
  show ?case
  proof (cases "truthy v \<and> typeof v = ''object'' \<and> has_key k v")
    case True
    with Cons.prems have "\<not> resolves (prop_get v k) ks" by simp
    then have "foldl walk_step (prop_get v k) ks = JUndef" by (rule Cons.IH)
    moreover from True have "walk_step v k = prop_get v k" by (simp add: walk_step_def)
    ultimately show ?thesis by simp
  next
    case False
    then have "walk_step v k = JUndef" by (auto simp: walk_step_def)
    then show ?thesis by (simp add: walk_from_undef)
  qed
qed

text \<open>
  The lookup by cases: without a path the configuration is the result when it is an
  object; with a path the end of the walk is the result when it is a non-array object.
\<close>

lemma retrieveSchema_of_null:
  "retrieveParametersValue parameters property = JNull \<Longrightarrow> retrieveSchema parameters property = Inr JNull"
  by (simp add: retrieveSchema_def)

lemma retrieveSchema_absent:
  "\<not> (truthy c \<and> typeof c = ''object'') \<Longrightarrow> retrieveSchema c p = Inr JNull"
  by (auto simp add: retrieveSchema_def retrieveParametersValue_def)

lemma retrieveParametersValue_no_path:
  "\<not> path_given property \<Longrightarrow>
   retrieveParametersValue parameters property =
     (if truthy parameters \<and> typeof parameters = ''object'' then parameters else JNull)"
  by (cases property) (simp_all add: retrieveParametersValue_def)

lemma retrieveParametersValue_path:
  "p \<noteq> [] \<Longrightarrow>
   retrieveParametersValue parameters (JStr p) =
     (if truthy parameters \<and> typeof parameters = ''object''
         \<and> nonarray_object (foldl walk_step parameters (path_segments p))
      then foldl walk_step parameters (path_segments p) else JNull)"
  by (simp add: retrieveParametersValue_def nonarray_object_def Let_def)



text \<open>
  The two ways in which the locator finds nothing: a segment that does not resolve, and a
  located value that is not a non-array object.
\<close>

lemma unresolved_walk_null:
  assumes "p \<noteq> []" and "\<not> resolves config (path_segments p)"
  shows "retrieveSchema config (JStr p) = Inr JNull"
proof -
  from assms(2) have "foldl walk_step config (path_segments p) = JUndef"
    by (rule walk_unresolved)
  with assms(1) have "retrieveParametersValue config (JStr p) = JNull"
    by (simp add: retrieveParametersValue_path nonarray_object_def)
  then show ?thesis by (rule retrieveSchema_of_null)
qed

lemma non_object_target_null:
  assumes "\<not> nonarray_object (located_value config property)"
    and "path_given property \<or> \<not> isArray config"
  shows "retrieveSchema config property = Inr JNull"
proof (cases "path_given property")
  case True
  then obtain p where p: "property = JStr p" "p \<noteq> []"
    by (cases property) auto
  with assms(1) have "\<not> nonarray_object (foldl walk_step config (path_segments p))"
    by simp
  with p have "retrieveParametersValue config property = JNull"
    by (simp add: retrieveParametersValue_path)
  then show ?thesis by (rule retrieveSchema_of_null)
next
  case False
  then have loc: "located_value config property = config"
    by (cases property) auto
  from False assms(2) have "\<not> isArray config" by simp
  with assms(1) loc have "\<not> (truthy config \<and> typeof config = ''object'')"
    by (simp add: nonarray_object_def)
  with False have "retrieveParametersValue config property = JNull"
    by (auto simp add: retrieveParametersValue_no_path)
  then show ?thesis by (rule retrieveSchema_of_null)
qed

text \<open>
  The three outcomes of the normalisation of a located object: it is kept, it is wrapped,
  or the comparison of line 56 raises.
\<close>

lemma retrieveSchema_cases:
  "retrieveParametersValue parameters property = v \<Longrightarrow> truthy v \<Longrightarrow>
   retrieveSchema parameters property =
     (if has_key ''type'' v then
        (case loose_eq_object (prop_get v ''type'') of
           Inl e \<Rightarrow> Inl e
         | Inr eq \<Rightarrow> if eq \<and> has_key ''properties'' v then Inr v else Inr (wrapped v))
      else Inr (wrapped v))"
  by (simp add: retrieveSchema_def wrapped_def Let_def split: sum.splits)

lemma comparison_raises:
  assumes "retrieveParametersValue config property = v"
    and "truthy v" and "has_key ''type'' v"
    and "loose_eq_object (prop_get v ''type'') = Inl e"
  shows "retrieveSchema config property = Inl e"
  using assms by (simp add: retrieveSchema_cases)

subsection \<open>Normalisation\<close>

text \<open>
  Claim C6. A located object that has a \<^verbatim>\<open>type\<close> key whose value is the string
  \<^verbatim>\<open>'object'\<close> (strict equality) and a \<^verbatim>\<open>properties\<close> key is returned by the locator
  as it is.
\<close>

theorem canonical_unchanged:
  assumes "retrieveParametersValue config property = v"
    and "truthy v"
    and "has_key ''type'' v"
    and "prop_get v ''type'' = JStr ''object''"
    and "has_key ''properties'' v"
  shows "retrieveSchema config property = Inr v"
  using assms by (simp add: retrieveSchema_cases)

text \<open>
  The theorem at the configuration \<^verbatim>\<open>{schema: {type: 'object', properties: {body: {}}}}\<close>
  and the path \<^verbatim>\<open>'schema'\<close>.
\<close>

theorem canonical_unchanged_witness:
  "retrieveParametersValue
      (JObj [(''schema'', JObj [(''type'', JStr ''object''), (''properties'', JObj [(''body'', JObj [])])])])
      (JStr ''schema'')
     = JObj [(''type'', JStr ''object''), (''properties'', JObj [(''body'', JObj [])])]
   \<and> retrieveSchema
      (JObj [(''schema'', JObj [(''type'', JStr ''object''), (''properties'', JObj [(''body'', JObj [])])])])
      (JStr ''schema'')
     = Inr (JObj [(''type'', JStr ''object''), (''properties'', JObj [(''body'', JObj [])])])"
proof -
  let ?v = "JObj [(''type'', JStr ''object''), (''properties'', JObj [(''body'', JObj [])])]"
  let ?c = "JObj [(''schema'', ?v)]"
  have located: "retrieveParametersValue ?c (JStr ''schema'') = ?v"
    by (simp add: retrieveParametersValue_def path_segments_def walk_step_def)
  have "retrieveSchema ?c (JStr ''schema'') = Inr ?v"
    by (rule canonical_unchanged [OF located]) simp_all
  with located show ?thesis by simp
qed

text \<open>
  Claim C2, as stated, at the located object \<^verbatim>\<open>{type: ['object'], properties: {}}\<close>. Its
  \<^verbatim>\<open>type\<close> is an array, not the string \<^verbatim>\<open>'object'\<close>, so the claim has it wrapped; line 56
  compares with \<^verbatim>\<open>==\<close>, the array converts to the string \<^verbatim>\<open>'object'\<close>, and the object is
  returned as it is.
\<close>

theorem wrap_counterexample:
  "retrieveParametersValue example_loose JUndef = example_loose
   \<and> nonarray_object example_loose
   \<and> \<not> (prop_get example_loose ''type'' = JStr ''object'' \<and> has_key ''properties'' example_loose)
   \<and> retrieveSchema example_loose JUndef \<noteq> Inr (wrapped example_loose)
   \<and> retrieveSchema example_loose JUndef = Inr example_loose"
  by (simp add: example_loose_def retrieveSchema_def retrieveParametersValue_def
      nonarray_object_def wrapped_def)

text \<open>
  The same holds of a \<^verbatim>\<open>type\<close> that is an object with a \<^verbatim>\<open>toString\<close> method of its own
  returning \<^verbatim>\<open>'object'\<close>; and for a \<^verbatim>\<open>type\<close> object whose \<^verbatim>\<open>toString\<close> and \<^verbatim>\<open>valueOf\<close>
  are no functions the comparison, and with it the locator, raises a TypeError.
\<close>

lemma converted_kept:
  "retrieveSchema example_converted JUndef = Inr example_converted
   \<and> retrieveSchema example_unconvertible JUndef = Inl TypeError"
  by (simp add: example_converted_def example_unconvertible_def retrieveSchema_def
      retrieveParametersValue_def to_primitive_def method_result_def)

text \<open>
  Claim C2, amended. A located object is wrapped when the test of line 56 is false: when
  it has no \<^verbatim>\<open>type\<close> key, or its \<^verbatim>\<open>type\<close> is not loosely equal (\<^verbatim>\<open>==\<close>) to \<^verbatim>\<open>'object'\<close>, or
  it has no \<^verbatim>\<open>properties\<close> key. The locator then returns
  \<^verbatim>\<open>{type: 'object', properties: v}\<close> with the whole located object \<open>v\<close> as \<^verbatim>\<open>properties\<close>,
  whatever its keys and their values are. (Loosely equal to \<^verbatim>\<open>'object'\<close> are that string
  and every array or object that converts to it; where the conversion raises, nothing is
  returned.)
\<close>

theorem bare_map_wrapped:
  assumes "retrieveParametersValue config property = v"
    and "truthy v"
    and "\<not> has_key ''type'' v
         \<or> loose_eq_object (prop_get v ''type'') = Inr False
         \<or> (loose_eq_object (prop_get v ''type'') = Inr True \<and> \<not> has_key ''properties'' v)"
  shows "retrieveSchema config property = Inr (JObj [(''type'', JStr ''object''), (''properties'', v)])"
  using assms by (auto simp add: retrieveSchema_cases wrapped_def)

text \<open>
  The theorem at a bare facet map with a key that is no facet name, a value that is no
  object and a \<^verbatim>\<open>type\<close> that is not \<^verbatim>\<open>'object'\<close> (all three are kept); at a map without
  \<^verbatim>\<open>type\<close>; at a map with \<^verbatim>\<open>type: 'object'\<close> and no \<^verbatim>\<open>properties\<close>; and at a map whose
  \<^verbatim>\<open>type\<close> is an empty object, which converts to \<^verbatim>\<open>'[object Object]'\<close>.
\<close>

theorem bare_map_wrapped_witness:
  "retrieveSchema
      (JObj [(''body'', JObj [(''type'', JStr ''object'')]), (''note'', JNum 1), (''type'', JStr ''array'')])
      JUndef
     = Inr (JObj [(''type'', JStr ''object''),
             (''properties'',
              JObj [(''body'', JObj [(''type'', JStr ''object'')]), (''note'', JNum 1), (''type'', JStr ''array'')])])
   \<and> retrieveSchema (JObj [(''body'', JObj [])]) JUndef
     = Inr (JObj [(''type'', JStr ''object''), (''properties'', JObj [(''body'', JObj [])])])
   \<and> retrieveSchema (JObj [(''type'', JStr ''object''), (''body'', JObj [])]) JUndef
     = Inr (JObj [(''type'', JStr ''object''),
                  (''properties'', JObj [(''type'', JStr ''object''), (''body'', JObj [])])])
   \<and> retrieveSchema (JObj [(''type'', JObj []), (''properties'', JObj [])]) JUndef
     = Inr (JObj [(''type'', JStr ''object''),
                  (''properties'', JObj [(''type'', JObj []), (''properties'', JObj [])])])"
proof -
  let ?a = "JObj [(''body'', JObj [(''type'', JStr ''object'')]), (''note'', JNum 1), (''type'', JStr ''array'')]"
  let ?b = "JObj [(''body'', JObj [])]"
  let ?c = "JObj [(''type'', JStr ''object''), (''body'', JObj [])]"
  let ?d = "JObj [(''type'', JObj []), (''properties'', JObj [])]"
  have la: "retrieveParametersValue ?a JUndef = ?a" and lb: "retrieveParametersValue ?b JUndef = ?b"
    and lc: "retrieveParametersValue ?c JUndef = ?c" and ld: "retrieveParametersValue ?d JUndef = ?d"
    by (simp_all add: retrieveParametersValue_def)
  have "retrieveSchema ?a JUndef = Inr (JObj [(''type'', JStr ''object''), (''properties'', ?a)])"
    by (rule bare_map_wrapped [OF la]) simp_all
  moreover have "retrieveSchema ?b JUndef = Inr (JObj [(''type'', JStr ''object''), (''properties'', ?b)])"
    by (rule bare_map_wrapped [OF lb]) (simp_all add: object_prototype_keys_def)
  moreover have "retrieveSchema ?c JUndef = Inr (JObj [(''type'', JStr ''object''), (''properties'', ?c)])"
    by (rule bare_map_wrapped [OF lc]) (simp_all add: object_prototype_keys_def)
  moreover have "retrieveSchema ?d JUndef = Inr (JObj [(''type'', JStr ''object''), (''properties'', ?d)])"
    by (rule bare_map_wrapped [OF ld]) (simp_all add: to_primitive_def method_result_def)
  ultimately show ?thesis by simp
qed

subsection \<open>Targets that are not non-array objects\<close>

text \<open>
  Claim C5, as stated, at the configuration \<^verbatim>\<open>[]\<close> with the path omitted: the located
  value is the array itself, and the locator returns the array wrapped, not \<^verbatim>\<open>null\<close>. The
  test for arrays (line 42) is made only when a path is given.
\<close>

theorem array_config_counterexample:
  "\<not> nonarray_object (located_value (JArr []) JUndef)
   \<and> retrieveSchema (JArr []) JUndef \<noteq> Inr JNull
   \<and> retrieveSchema (JArr []) JUndef = Inr (wrapped (JArr []))"
  by (simp add: retrieveSchema_def retrieveParametersValue_def
      nonarray_object_def wrapped_def array_index_def array_prototype_keys_def object_prototype_keys_def)

text \<open>
  Claim C5, amended. When the located value is not a non-array object the locator returns
  \<^verbatim>\<open>null\<close>, provided that a path is given or the configuration is not an array. (With no
  path, or the empty one, the configuration itself is the located value; an array there is
  the one case left out.)
\<close>

theorem non_object_target_is_null:
  assumes "\<not> nonarray_object (located_value config property)"
    and "path_given property \<or> \<not> isArray config"
  shows "retrieveSchema config property = Inr JNull"
  using assms by (rule non_object_target_null)

text \<open>
  The theorem at a path that ends on an array, and at a configuration that is a string
  with no path.
\<close>

theorem non_object_target_is_null_witness:
  "\<not> nonarray_object (located_value (JObj [(''a'', JArr [JNum 1])]) (JStr ''a''))
   \<and> path_given (JStr ''a'')
   \<and> retrieveSchema (JObj [(''a'', JArr [JNum 1])]) (JStr ''a'') = Inr JNull
   \<and> \<not> nonarray_object (located_value (JStr ''x'') JUndef)
   \<and> \<not> isArray (JStr ''x'')
   \<and> retrieveSchema (JStr ''x'') JUndef = Inr JNull"
proof -
  have a: "\<not> nonarray_object (located_value (JObj [(''a'', JArr [JNum 1])]) (JStr ''a''))"
    by (simp add: nonarray_object_def path_segments_def walk_step_def)
  have b: "\<not> nonarray_object (located_value (JStr ''x'') JUndef)"
    by (simp add: nonarray_object_def)
  have "retrieveSchema (JObj [(''a'', JArr [JNum 1])]) (JStr ''a'') = Inr JNull"
    by (rule non_object_target_is_null [OF a]) simp
  moreover have "retrieveSchema (JStr ''x'') JUndef = Inr JNull"
    by (rule non_object_target_is_null [OF b]) simp
  ultimately show ?thesis using a b by simp
qed

subsection \<open>Segments that do not resolve\<close>

text \<open>
  Claim C7, as stated, at the configuration \<^verbatim>\<open>{}\<close> and the path \<^verbatim>\<open>'__proto__'\<close>: the
  configuration has no key at all, so the segment is no existing key of it; line 33 tests
  with \<^verbatim>\<open>in\<close>, which finds the key on \<^verbatim>\<open>Object.prototype\<close>, and the locator returns that
  object wrapped, not \<^verbatim>\<open>null\<close>.
\<close>

theorem inherited_key_counterexample:
  "\<not> resolves_own (JObj []) (path_segments ''__proto__'')
   \<and> retrieveSchema (JObj []) (JStr ''__proto__'') \<noteq> Inr JNull
   \<and> retrieveSchema (JObj []) (JStr ''__proto__'') = Inr (wrapped JObjectPrototype)"
  by (simp add: retrieveSchema_def retrieveParametersValue_def path_segments_def walk_step_def
      wrapped_def object_prototype_keys_def object_member_def)

text \<open>
  Claim C7, amended. For a path that is not empty, if some segment does not resolve as
  the operator \<^verbatim>\<open>in\<close> resolves it (at that point of the walk the value is not an object,
  or the segment is neither a key of its own nor one inherited through its prototype
  chain), the locator returns \<^verbatim>\<open>null\<close>.
\<close>

theorem unresolved_segment_is_null:
  assumes "p \<noteq> []"
    and "\<not> resolves config (path_segments p)"
  shows "retrieveSchema config (JStr p) = Inr JNull"
  using assms by (rule unresolved_walk_null)

text \<open>
  The theorem at the path \<^verbatim>\<open>'a.x.c'\<close> in a configuration that has \<^verbatim>\<open>a\<close> but no
  \<^verbatim>\<open>x\<close> under it: the failure is in the middle of the walk.
\<close>

theorem unresolved_segment_is_null_witness:
  "\<not> resolves example_nested (path_segments ''a.x.c'')
   \<and> retrieveSchema example_nested (JStr ''a.x.c'') = Inr JNull"
proof -
  have a: "\<not> resolves example_nested (path_segments ''a.x.c'')"
    by (simp add: example_nested_def path_segments_def object_prototype_keys_def)
  have "retrieveSchema example_nested (JStr ''a.x.c'') = Inr JNull"
    by (rule unresolved_segment_is_null [OF _ a]) simp
  with a show ?thesis by simp
qed

subsection \<open>The empty path\<close>

text \<open>
  Claim C10. The empty string as the path is the path omitted: the lookup and the locator
  give the same result for both, and the configuration, when it is an object, is the
  located value.
\<close>

theorem empty_path_is_omitted:
  "retrieveParametersValue config (JStr []) = retrieveParametersValue config JUndef
   \<and> retrieveSchema config (JStr []) = retrieveSchema config JUndef
   \<and> located_value config (JStr []) = config
   \<and> (nonarray_object config \<longrightarrow> retrieveParametersValue config (JStr []) = config)"
  by (simp add: retrieveSchema_def retrieveParametersValue_def nonarray_object_def)

text \<open>
  The theorem at a nested configuration: the configuration itself is located and wrapped.
\<close>

theorem empty_path_is_omitted_witness:
  "nonarray_object example_nested
   \<and> retrieveParametersValue example_nested (JStr []) = example_nested
   \<and> retrieveSchema example_nested (JStr []) = Inr (wrapped example_nested)
   \<and> retrieveSchema example_nested JUndef = Inr (wrapped example_nested)"
  using empty_path_is_omitted [of example_nested]
  by (simp add: example_nested_def nonarray_object_def retrieveSchema_def
      retrieveParametersValue_def wrapped_def object_prototype_keys_def)

subsection \<open>Bracket segments and dot segments\<close>

text \<open>
  Where the text before it has no opening bracket, a bracketed run is replaced by the run
  between two dots; text without an opening bracket is left as it is.
\<close>

lemma replace_brackets_plain:
  "CHR ''['' \<notin> set s \<Longrightarrow> replace_brackets (s @ t) = s @ replace_brackets t"
  by (induction s) auto

lemma bracket_body_closed:
  "CHR ''['' \<notin> set k \<Longrightarrow> CHR '']'' \<notin> set k \<Longrightarrow> bracket_body (k @ CHR '']'' # q) = Some (k, q)"
  by (induction k) auto

lemma replace_brackets_indexed:
  assumes "CHR ''['' \<notin> set p" and "CHR ''['' \<notin> set k" and "CHR '']'' \<notin> set k"
  shows "replace_brackets (p @ ''['' @ k @ '']'' @ q) = p @ ''.'' @ k @ ''.'' @ replace_brackets q"
  using assms by (simp add: replace_brackets_plain bracket_body_closed)

lemma replace_brackets_dotted:
  assumes "CHR ''['' \<notin> set p" and "CHR ''['' \<notin> set k"
  shows "replace_brackets (p @ ''.'' @ k @ ''.'' @ q) = p @ ''.'' @ k @ ''.'' @ replace_brackets q"
proof -
  have "CHR ''['' \<notin> set (p @ ''.'' @ k @ ''.'')" using assms by simp
  then have "replace_brackets ((p @ ''.'' @ k @ ''.'') @ q) = (p @ ''.'' @ k @ ''.'') @ replace_brackets q"
    by (rule replace_brackets_plain)
  then show ?thesis by simp
qed

text \<open>
  Splitting distributes over a dot.
\<close>

lemma split_dot_nonempty: "split_dot s \<noteq> []"
  by (induction s) (auto split: list.splits)

lemma split_dot_append: "split_dot (s @ CHR ''.'' # t) = split_dot s @ split_dot t"
proof (induction s)
  case Nil
  show ?case by simp
next
  case (Cons c s)
  obtain x xs where "split_dot s = x # xs"
    using split_dot_nonempty [of s] by (cases "split_dot s") auto
  with Cons show ?case by simp
qed

lemma segments_plain:
  "CHR ''['' \<notin> set s \<Longrightarrow> path_segments s = filter (\<lambda>t. t \<noteq> []) (split_dot s)"
  using replace_brackets_plain [of s "[]"] by (simp add: path_segments_def)

text \<open>
  Claim C3. A bracket-indexed segment is a dot-separated segment: for a path \<open>p\<close> without
  an opening bracket and a key \<open>k\<close> without brackets, \<open>p[k]\<close> and \<open>p.k\<close> have the same
  segments, so the lookup and the locator give the same result for both in every
  configuration (with \<open>p = a.b\<close> and \<open>k = c\<close>: \<^verbatim>\<open>'a.b[c]'\<close> and \<^verbatim>\<open>'a.b.c'\<close>); the same
  holds in the middle of a path. Empty segments are ignored: no segment of a path is
  empty, and a doubled dot is a single one.
\<close>

theorem bracket_equals_dot:
  assumes "CHR ''['' \<notin> set p" and "CHR ''['' \<notin> set k" and "CHR '']'' \<notin> set k"
  shows "path_segments (p @ ''['' @ k @ '']'' @ q) = path_segments (p @ ''.'' @ k @ ''.'' @ q)
       \<and> path_segments (p @ ''['' @ k @ '']'') = path_segments (p @ ''.'' @ k)
       \<and> retrieveParametersValue config (JStr (p @ ''['' @ k @ '']''))
           = retrieveParametersValue config (JStr (p @ ''.'' @ k))
       \<and> retrieveSchema config (JStr (p @ ''['' @ k @ '']''))
           = retrieveSchema config (JStr (p @ ''.'' @ k))
       \<and> path_segments (p @ ''.'' @ k) = path_segments p @ path_segments k
       \<and> path_segments (p @ ''..'' @ k) = path_segments (p @ ''.'' @ k)
       \<and> [] \<notin> set (path_segments q)"
proof -
  have mid: "path_segments (p @ ''['' @ k @ '']'' @ q) = path_segments (p @ ''.'' @ k @ ''.'' @ q)"
    using replace_brackets_indexed [OF assms, of q] replace_brackets_dotted [OF assms(1,2), of q]
    by (simp add: path_segments_def)
  have "replace_brackets (p @ ''['' @ k @ '']'') = p @ ''.'' @ k @ ''.''"
    using replace_brackets_indexed [OF assms, of "[]"] by simp
  then have "path_segments (p @ ''['' @ k @ '']'') = filter (\<lambda>t. t \<noteq> []) (split_dot ((p @ ''.'' @ k) @ ''.''))"
    by (simp add: path_segments_def)
  also have "\<dots> = filter (\<lambda>t. t \<noteq> []) (split_dot (p @ ''.'' @ k))"
    by (simp only: split_dot_append) simp
  also have "\<dots> = path_segments (p @ ''.'' @ k)"
    using assms by (simp add: segments_plain)
  finally have seg: "path_segments (p @ ''['' @ k @ '']'') = path_segments (p @ ''.'' @ k)" .
  have rpv: "retrieveParametersValue config (JStr (p @ ''['' @ k @ '']''))
           = retrieveParametersValue config (JStr (p @ ''.'' @ k))"
  proof -
    have a: "p @ ''['' @ k @ '']'' \<noteq> []" and b: "p @ ''.'' @ k \<noteq> []" by simp_all
    show ?thesis
      unfolding retrieveParametersValue_path [OF a] retrieveParametersValue_path [OF b] seg
      by (rule refl)
  qed
  have cat: "path_segments (p @ ''.'' @ k) = path_segments p @ path_segments k"
    using assms by (simp add: segments_plain split_dot_append)
  have "path_segments (p @ ''..'' @ k) = filter (\<lambda>t. t \<noteq> []) (split_dot (p @ CHR ''.'' # CHR ''.'' # k))"
    using assms by (simp add: segments_plain)
  also have "\<dots> = path_segments (p @ ''.'' @ k)"
    using assms by (simp add: segments_plain split_dot_append)
  finally have dd: "path_segments (p @ ''..'' @ k) = path_segments (p @ ''.'' @ k)" .
  have ne: "[] \<notin> set (path_segments q)"
    by (simp add: path_segments_def)
  have rs: "retrieveSchema config (JStr (p @ ''['' @ k @ '']''))
           = retrieveSchema config (JStr (p @ ''.'' @ k))"
    unfolding retrieveSchema_def rpv by (rule refl)
  from mid seg rpv rs cat dd ne show ?thesis
    by (intro conjI)
qed

text \<open>
  The theorem at \<^verbatim>\<open>'a.b[c]'\<close> in a configuration with nested objects at the keys \<^verbatim>\<open>a\<close>,
  \<^verbatim>\<open>b\<close> and \<^verbatim>\<open>c\<close>: both forms locate the innermost object.
\<close>

theorem bracket_equals_dot_witness:
  "CHR ''['' \<notin> set ''a.b'' \<and> CHR ''['' \<notin> set ''c'' \<and> CHR '']'' \<notin> set ''c''
   \<and> retrieveSchema example_nested (JStr ''a.b[c]'') = retrieveSchema example_nested (JStr ''a.b.c'')
   \<and> retrieveSchema example_nested (JStr ''a.b.c'') = Inr (wrapped (JObj [(''body'', JObj [(''type'', JStr ''object'')])]))
   \<and> path_segments ''a.b[c]'' = [''a'', ''b'', ''c'']
   \<and> path_segments ''a..b.[c].'' = [''a'', ''b'', ''c'']"
  using bracket_equals_dot [of "''a.b''" "''c''" "[]" example_nested]
  by (simp add: example_nested_def retrieveSchema_def retrieveParametersValue_def
      path_segments_def walk_step_def wrapped_def object_prototype_keys_def)

section \<open>Properties of the extractor\<close>

text \<open>
  When \<^verbatim>\<open>properties\<close> is an object the result lists the facet names that are keys of it,
  in the order of \<^verbatim>\<open>PARAMETERS_PROPS\<close>, each with the facet of the request.
\<close>

lemma extract_by_filter:
  assumes "map_of kvs ''properties'' = Some properties"
    and "truthy properties" and "typeof properties = ''object''"
  shows "buildValueToValidate (JObj kvs) req =
           Inr (map (\<lambda>k. (k, request_facet req k))
                  (filter (\<lambda>k. has_key k properties) PARAMETERS_PROPS))"
proof -
  from assms(1) have "''properties'' \<in> fst ` set kvs"
    by (metis map_of_eq_None_iff option.distinct(1))
  with assms show ?thesis
    by (simp add: buildValueToValidate_def PARAMETERS_PROPS_def request_facet_def)
qed



text \<open>
  Claim C1. For a schema whose \<^verbatim>\<open>properties\<close> is an object, the extractor returns a
  mapping whose keys are exactly the recognised facet names that are keys of
  \<^verbatim>\<open>properties\<close>; each of them is bound to that facet of the request, and a name that is
  not a key of \<^verbatim>\<open>properties\<close> is absent from the result.
\<close>

theorem extract_exactly_declared:
  assumes "map_of kvs ''properties'' = Some properties"
    and "truthy properties" and "typeof properties = ''object''"
  shows "\<exists>r. buildValueToValidate (JObj kvs) req = Inr r
           \<and> set (map fst r) = set PARAMETERS_PROPS \<inter> {k. has_key k properties}
           \<and> distinct (map fst r)
           \<and> (\<forall>k. has_key k properties \<and> k \<in> set PARAMETERS_PROPS \<longrightarrow> map_of r k = Some (request_facet req k))
           \<and> (\<forall>k. \<not> has_key k properties \<longrightarrow> map_of r k = None)"
proof -
  let ?ks = "filter (\<lambda>k. has_key k properties) PARAMETERS_PROPS"
  let ?r = "map (\<lambda>k. (k, request_facet req k)) ?ks"
  have r: "buildValueToValidate (JObj kvs) req = Inr ?r"
    using assms by (rule extract_by_filter)
  have fst: "map fst ?r = ?ks" by (simp add: comp_def)
  have keys: "set (map fst ?r) = set PARAMETERS_PROPS \<inter> {k. has_key k properties}"
    unfolding fst by auto
  have dist: "distinct (map fst ?r)"
    unfolding fst by (simp add: PARAMETERS_PROPS_def)
  have m: "map_of ?r = (Some \<circ> request_facet req) |` set ?ks"
    by (rule map_of_map_restrict)
  have bound: "\<forall>k. has_key k properties \<and> k \<in> set PARAMETERS_PROPS \<longrightarrow> map_of ?r k = Some (request_facet req k)"
    unfolding m by (simp add: restrict_map_def)
  have absent: "\<forall>k. \<not> has_key k properties \<longrightarrow> map_of ?r k = None"
    unfolding m by (simp add: restrict_map_def)
  from r keys dist bound absent show ?thesis by blast
qed

text \<open>
  The theorem at a schema that mentions \<^verbatim>\<open>query\<close>, \<^verbatim>\<open>body\<close> (with a value that is no
  object) and a key that is no facet name, for a request that has \<^verbatim>\<open>params\<close> as well.
\<close>

theorem extract_exactly_declared_witness:
  "\<exists>r. buildValueToValidate
          (JObj [(''type'', JStr ''object''),
                 (''properties'', JObj [(''query'', JObj []), (''body'', JNum 1), (''other'', JObj [])])])
          (example_request JUndef) = Inr r
       \<and> set (map fst r) = {''body'', ''query''}
       \<and> map_of r ''body'' = Some (JObj [])
       \<and> map_of r ''query'' = Some (JObj [(''q'', JStr ''x'')])
       \<and> map_of r ''params'' = None"
proof -
  let ?props = "JObj [(''query'', JObj []), (''body'', JNum 1), (''other'', JObj [])]"
  let ?kvs = "[(''type'', JStr ''object''), (''properties'', ?props)]"
  have h: "map_of ?kvs ''properties'' = Some ?props" by simp
  have keys: "set PARAMETERS_PROPS \<inter> {k. has_key k ?props} = {''body'', ''query''}"
    by (auto simp add: PARAMETERS_PROPS_def object_prototype_keys_def)
  from extract_exactly_declared [OF h, of "example_request JUndef"]
  obtain r where r: "buildValueToValidate (JObj ?kvs) (example_request JUndef) = Inr r"
    and k: "set (map fst r) = set PARAMETERS_PROPS \<inter> {k. has_key k ?props}"
    and b: "\<forall>k. has_key k ?props \<and> k \<in> set PARAMETERS_PROPS \<longrightarrow>
              map_of r k = Some (request_facet (example_request JUndef) k)"
    and a: "\<forall>k. \<not> has_key k ?props \<longrightarrow> map_of r k = None"
    by auto
  from b have "map_of r ''body'' = Some (request_facet (example_request JUndef) ''body'')"
    by (simp add: PARAMETERS_PROPS_def)
  moreover from b have "map_of r ''query'' = Some (request_facet (example_request JUndef) ''query'')"
    by (simp add: PARAMETERS_PROPS_def)
  moreover from a have "map_of r ''params'' = None" by (simp add: object_prototype_keys_def)
  ultimately show ?thesis using r k keys
    by (simp add: request_facet_def example_request_def)
qed

text \<open>
  Claim C9. For a schema whose \<^verbatim>\<open>properties\<close> is absent or is not an object, the extractor
  returns the empty mapping. (\<open>schema\<close> is an object, an array or a function: the
  operator \<^verbatim>\<open>in\<close> does not raise on it.)
\<close>

theorem extract_empty_without_properties:
  assumes "in_op ''properties'' schema = Inr present"
    and "\<not> present \<or> \<not> (truthy (prop_get schema ''properties'')
                             \<and> typeof (prop_get schema ''properties'') = ''object'')"
  shows "buildValueToValidate schema req = Inr []"
  using assms by (auto simp add: buildValueToValidate_def)

text \<open>
  The theorem at schemas without \<^verbatim>\<open>properties\<close>, with \<^verbatim>\<open>properties: null\<close> and with a
  string as \<^verbatim>\<open>properties\<close>.
\<close>

theorem extract_empty_without_properties_witness:
  "buildValueToValidate (JObj [(''type'', JStr ''object'')]) (example_request JUndef) = Inr []
   \<and> buildValueToValidate (JObj [(''properties'', JNull)]) (example_request JUndef) = Inr []
   \<and> buildValueToValidate (JObj [(''properties'', JStr ''body'')]) (example_request JUndef) = Inr []"
proof -
  have "buildValueToValidate (JObj [(''type'', JStr ''object'')]) (example_request JUndef) = Inr []"
    by (rule extract_empty_without_properties [where present = False])
      (simp_all add: object_prototype_keys_def)
  moreover have "buildValueToValidate (JObj [(''properties'', JNull)]) (example_request JUndef) = Inr []"
    by (rule extract_empty_without_properties [where present = True]) simp_all
  moreover have "buildValueToValidate (JObj [(''properties'', JStr ''body'')]) (example_request JUndef) = Inr []"
    by (rule extract_empty_without_properties [where present = True]) simp_all
  ultimately show ?thesis by simp
qed

section \<open>Properties of the middleware\<close>

text \<open>
  Claim C8, as stated, at a request whose route configuration is \<^verbatim>\<open>[]\<close>, with no path:
  the target, the configuration itself, is not a non-array object, so the claim has the
  handler call \<^verbatim>\<open>next\<close> at once; the locator wraps the array (see claim C5) and the handler
  calls the engine: with an engine that raises on this schema the request ends there, and
  with one that accepts it \<^verbatim>\<open>next\<close> is called only after the validation.
\<close>

theorem array_config_validated_counterexample:
  "\<not> nonarray_object (located_value (route_parameters (example_request (JArr []))) JUndef)
   \<and> validatorJsonRequestHandler raising_engine (JObj []) JUndef JUndef
       (example_request (JArr []))
     = [Log Info, Validate (JObj []) (wrapped (JArr [])) (JObj []), EngineRaise]
   \<and> validatorJsonRequestHandler accepting_engine (JObj []) JUndef JUndef
       (example_request (JArr []))
     = [Log Info, Validate (JObj []) (wrapped (JArr [])) (JObj []), Log Info, CallNext]
   \<and> validatorJsonRequestHandler raising_engine (JObj []) JUndef JUndef
       (example_request (JArr []))
     \<noteq> [Log Silly, CallNext]
   \<and> validatorJsonRequestHandler accepting_engine (JObj []) JUndef JUndef
       (example_request (JArr []))
     \<noteq> [Log Silly, CallNext]"
  by (simp add: raising_engine_def accepting_engine_def validatorJsonRequestHandler_def example_request_def route_parameters_def
      opt_member_def member_def retrieveSchema_def retrieveParametersValue_def
      buildValueToValidate_def nonarray_object_def wrapped_def array_index_def
      array_prototype_keys_def object_prototype_keys_def array_member_def object_member_def)

text \<open>
  Claim C8, amended. When the route configuration of the request is absent or no object,
  or a path is given and does not resolve (as the operator \<^verbatim>\<open>in\<close> resolves it), or the
  located value is not a non-array object (a path being given, or the configuration being
  no array), the handler logs and calls \<^verbatim>\<open>next\<close>, and that is all it does: the engine is
  not called and no response is written, whatever the engine, the options and the default
  error handler are.
\<close>

theorem no_schema_calls_next:
  assumes "\<not> (truthy (route_parameters req) \<and> typeof (route_parameters req) = ''object'')
         \<or> (\<exists>p. schemaProperty = JStr p \<and> p \<noteq> []
                \<and> \<not> resolves (route_parameters req) (path_segments p))
         \<or> (\<not> nonarray_object (located_value (route_parameters req) schemaProperty)
             \<and> (path_given schemaProperty \<or> \<not> isArray (route_parameters req)))"
  shows "validatorJsonRequestHandler engine options onerror schemaProperty req = [Log Silly, CallNext]
       \<and> filter engine_event (validatorJsonRequestHandler engine options onerror schemaProperty req) = []
       \<and> filter terminal (validatorJsonRequestHandler engine options onerror schemaProperty req) = [CallNext]"
proof -
  have "retrieveSchema (route_parameters req) schemaProperty = Inr JNull"
    using assms
  proof (elim disjE exE conjE)
    assume "\<not> (truthy (route_parameters req) \<and> typeof (route_parameters req) = ''object'')"
    then show ?thesis by (rule retrieveSchema_absent)
  next
    fix p
    assume "schemaProperty = JStr p" "p \<noteq> []"
      "\<not> resolves (route_parameters req) (path_segments p)"
    then show ?thesis by (simp add: unresolved_walk_null)
  next
    assume "\<not> nonarray_object (located_value (route_parameters req) schemaProperty)"
      "path_given schemaProperty"
    then show ?thesis by (simp add: non_object_target_null)
  next
    assume "\<not> nonarray_object (located_value (route_parameters req) schemaProperty)"
      "\<not> isArray (route_parameters req)"
    then show ?thesis by (simp add: non_object_target_null)
  qed
  then show ?thesis
    by (simp add: validatorJsonRequestHandler_def route_parameters_def)
qed

text \<open>
  The theorem for a request without \<^verbatim>\<open>meta\<close>, for a path that does not resolve, and for a
  path that ends on an array; the engine of the three is one that would raise.
\<close>

theorem no_schema_calls_next_witness:
  "validatorJsonRequestHandler (\<lambda>opts schema values. Raises) (JObj []) JUndef JUndef
      ((example_request JUndef) \<lparr> meta := JUndef \<rparr>) = [Log Silly, CallNext]
   \<and> validatorJsonRequestHandler (\<lambda>opts schema values. Raises) (JObj []) JUndef (JStr ''a.x'')
      (example_request example_nested) = [Log Silly, CallNext]
   \<and> validatorJsonRequestHandler (\<lambda>opts schema values. Raises) (JObj []) JUndef (JStr ''schema'')
      (example_request (JObj [(''schema'', JArr [])])) = [Log Silly, CallNext]"
proof -
  let ?e = "\<lambda>opts schema values. Raises"
  have a: "\<not> (truthy (route_parameters ((example_request JUndef) \<lparr> meta := JUndef \<rparr>))
              \<and> typeof (route_parameters ((example_request JUndef) \<lparr> meta := JUndef \<rparr>)) = ''object'')"
    by (simp add: route_parameters_def opt_member_def)
  have b: "\<exists>p. JStr ''a.x'' = JStr p \<and> p \<noteq> []
             \<and> \<not> resolves (route_parameters (example_request example_nested)) (path_segments p)"
    by (simp add: route_parameters_def opt_member_def example_request_def example_nested_def
        path_segments_def object_prototype_keys_def)
  have c: "\<not> nonarray_object (located_value (route_parameters (example_request (JObj [(''schema'', JArr [])]))) (JStr ''schema''))
           \<and> (path_given (JStr ''schema'') \<or> \<not> isArray (route_parameters (example_request (JObj [(''schema'', JArr [])]))))"
    by (simp add: route_parameters_def opt_member_def example_request_def nonarray_object_def
        path_segments_def walk_step_def)
  from no_schema_calls_next [where engine = ?e and options = "JObj []" and onerror = JUndef, OF disjI1, OF a]
    no_schema_calls_next [where engine = ?e and options = "JObj []" and onerror = JUndef, OF disjI2, OF disjI1, OF b]
    no_schema_calls_next [where engine = ?e and options = "JObj []" and onerror = JUndef, OF disjI2, OF disjI2, OF c]
  show ?thesis by simp
qed




end
